theory Spec2Isabelle
  imports Complex_Main "HOL-Library.Char_ord" "HOL-Library.List_Lexorder"
begin

section \<open>Effects: exceptions, printed lines and the calls made on collaborators\<close>

text \<open>
  The notebook \<^verbatim>\<open>examples/benchmarks.ipynb\<close> defines a mock brain model,
  \<^verbatim>\<open>RandomITModel\<close>, and a custom benchmark, \<^verbatim>\<open>MyBenchmark\<close>. Both print progress
  lines, raise exceptions, read and assign attributes and call into libraries. All of these
  are explicit in the model below.
\<close>

text \<open>
  Modelled from the spec: the enumeration \<^verbatim>\<open>BrainModel.Task\<close> is declared in
  \<^verbatim>\<open>brainscore.model_interface\<close>, which is not part of the notebook. The notebook names one
  member, \<^verbatim>\<open>passive\<close>; it is written \<open>Passive\<close> and every other member \<open>Other_task n\<close>.
\<close>

datatype task = Passive | Other_task nat

text \<open>
  A time bin as \<^verbatim>\<open>start_recording\<close> can receive it: a one-dimensional integer numpy array,
  as the benchmark passes it (\<^verbatim>\<open>np.array((100, 120))\<close>), or a plain tuple or list of
  integers, as the default \<^verbatim>\<open>List[Tuple[int]]\<close> of the signature names it. Only the array
  has the method \<^verbatim>\<open>tolist\<close>.
\<close>

datatype time_bin = Array_bin "int list" | Tuple_bin "int list"

text \<open>The bins \<^verbatim>\<open>start_recording\<close> can read: arrays with at least two entries.\<close>

fun readable :: "time_bin \<Rightarrow> bool" where
  "readable (Array_bin entries) = (2 \<le> length entries)"
| "readable (Tuple_bin entries) = False"

text \<open>The two messages \<^verbatim>\<open>start_recording\<close> puts into its \<^verbatim>\<open>NotImplementedError\<close>.\<close>

datatype detail =
    only_supports_IT string
  | only_supports_single_time_bin "time_bin list"

text \<open>
  The exceptions of the notebook and of the operations it uses; \<open>OtherError\<close> stands for
  whatever else a candidate or a library function may raise.
\<close>

datatype error =
    NotImplementedError "detail option"
  | IndexError
  | ValueError
  | KeyError string
  | ZeroDivisionError
  | AttributeError string
  | TypeError
  | OtherError string

text \<open>Every line the notebook prints, kept as its format and the values it interpolates.\<close>

datatype message =
    Looking_at nat
  | Starting_task task
  | Recording_from string "time_bin list"
  | Declaring_visual_field
  | Computing_model_match
  | Computing_ceiling

text \<open>
  The calls the notebook's code makes on objects it does not define itself: the four
  operations of the candidate model and the library functions.
\<close>

datatype operation =
    Op_start_task task
  | Op_start_recording string "time_bin list"
  | Op_visual_degrees
  | Op_look_at
  | Op_get_assembly string
  | Op_place_on_screen
  | Op_average_repetition
  | Op_similarity_metric
  | Op_ceiler
  | Op_explained_variance

datatype event = Printed message | Invoked operation

text \<open>
  A computation runs on a state \<open>'s\<close> (the attributes of the objects it can reach). It
  yields what it logged, in order, the exception that ended it or its result, and the state
  it leaves behind: an object outlives an exception raised by one of its methods.
\<close>

type_synonym ('l, 's, 'a) prog = "'s \<Rightarrow> 'l list \<times> (error + 'a) \<times> 's"

definition events :: "'l list \<times> (error + 'a) \<times> 's \<Rightarrow> 'l list" where
  "events r = fst r"

definition result :: "'l list \<times> (error + 'a) \<times> 's \<Rightarrow> error + 'a" where
  "result r = fst (snd r)"

definition final :: "'l list \<times> (error + 'a) \<times> 's \<Rightarrow> 's" where
  "final r = snd (snd r)"

definition returns :: "'a \<Rightarrow> ('l, 's, 'a) prog" where
  "returns x = (\<lambda>s. ([], Inr x, s))"

definition raise :: "error \<Rightarrow> ('l, 's, 'a) prog" where
  "raise e = (\<lambda>s. ([], Inl e, s))"

definition tell :: "'l \<Rightarrow> ('l, 's, unit) prog" where
  "tell m = (\<lambda>s. ([m], Inr (), s))"

definition read :: "('s \<Rightarrow> 'a) \<Rightarrow> ('l, 's, 'a) prog" where
  "read f = (\<lambda>s. ([], Inr (f s), s))"

definition assign :: "('s \<Rightarrow> 's) \<Rightarrow> ('l, 's, unit) prog" where
  "assign upd = (\<lambda>s. ([], Inr (), upd s))"

text \<open>A library function that neither prints nor touches the state: it returns or raises.\<close>

definition lift :: "error + 'a \<Rightarrow> ('l, 's, 'a) prog" where
  "lift r = (\<lambda>s. ([], r, s))"

text \<open>Sequencing: an exception ends the computation; the log and the state so far are kept.\<close>

definition and_then :: "('l, 's, 'a) prog \<Rightarrow> ('a \<Rightarrow> ('l, 's, 'b) prog) \<Rightarrow> ('l, 's, 'b) prog" where
  "and_then p f =
     (\<lambda>s. case p s of
            (l, r, s') \<Rightarrow>
              (case r of
                 Inl e \<Rightarrow> (l, Inl e, s')
               | Inr x \<Rightarrow> (case f x s' of (l', r', s'') \<Rightarrow> (l @ l', r', s''))))"

text \<open>A call on a collaborator is logged before the collaborator runs.\<close>

definition invoke :: "operation \<Rightarrow> (event, 's, 'a) prog \<Rightarrow> (event, 's, 'a) prog" where
  "invoke ope p = (\<lambda>s. case p s of (l, r, s') \<Rightarrow> (Invoked ope # l, r, s'))"

section \<open>Stimulus sets, arrays and assemblies\<close>


text \<open>
  A stimulus set is an ordered collection of stimuli; the notebook reads its length and its
  columns \<^verbatim>\<open>image_id\<close> and \<^verbatim>\<open>object_name\<close>.
\<close>

record stimulus =
  image_id :: string
  object_name :: string

type_synonym stimulus_set = "stimulus list"

text \<open>An n-dimensional array: its shape and its entries in row-major order.\<close>

record ndarray =
  shape :: "nat list"
  flat :: "real list"

text \<open>
  \<^verbatim>\<open>np.random.RandomState(seed)\<close> is a generator object of its own. The stream of numbers a
  seed produces belongs to numpy and is a parameter \<open>mt\<close>: \<open>mt seed k\<close> is the \<open>k\<close>-th
  number drawn after seeding. \<^verbatim>\<open>rand\<close> draws as many numbers as the shape has entries and
  advances the generator.
\<close>

record RandomState =
  seed :: nat
  drawn :: nat

definition new_RandomState :: "nat \<Rightarrow> RandomState" where
  "new_RandomState s = \<lparr>seed = s, drawn = 0\<rparr>"

definition rand :: "(nat \<Rightarrow> nat \<Rightarrow> real) \<Rightarrow> RandomState \<Rightarrow> nat list \<Rightarrow> ndarray \<times> RandomState" where
  "rand mt rnd shp =
     (\<lparr>shape = shp, flat = map (\<lambda>k. mt (seed rnd) (drawn rnd + k)) [0..<prod_list shp]\<rparr>,
      rnd\<lparr>drawn := drawn rnd + prod_list shp\<rparr>)"

text \<open>
  The values a coordinate can hold: text, integers, \<^verbatim>\<open>None\<close>, the missing-value marker
  \<^verbatim>\<open>nan\<close> of an index, and the tuple of the level values of a multi-index.
\<close>

datatype label = Str string | Num int | Null | NaN | Levels "label list"

definition label_of :: "int option \<Rightarrow> label" where
  "label_of v = (case v of None \<Rightarrow> Null | Some i \<Rightarrow> Num i)"

text \<open>
  A \<^verbatim>\<open>DataAssembly\<close>: an array with named dimensions, coordinates (name, dimension, one label
  per index of that dimension; a scalar coordinate has no dimension and one label), a name
  and the attached stimulus set.
\<close>

record data_assembly =
  data :: ndarray
  coords :: "(string \<times> string option \<times> label list) list"
  dims :: "string list"
  name :: "string option"
  stimulus_set :: "stimulus_set option"

definition dim_size :: "string list \<Rightarrow> nat list \<Rightarrow> string \<Rightarrow> nat option" where
  "dim_size ds shp d = map_of (zip ds shp) d"

definition sizes :: "data_assembly \<Rightarrow> string \<Rightarrow> nat option" where
  "sizes a d = dim_size (dims a) (shape (data a)) d"

definition coord :: "data_assembly \<Rightarrow> string \<Rightarrow> (string option \<times> label list) option" where
  "coord a c = map_of (coords a) c"

text \<open>
  The coordinates that lie on the dimension \<open>d\<close>. When there are several, the library
  brainio gathers them into the levels of one multi-index of that dimension.
\<close>

definition on_dim :: "string \<Rightarrow> (string \<times> string option \<times> label list) list
    \<Rightarrow> (string \<times> string option \<times> label list) list" where
  "on_dim d cs = filter (\<lambda>c. fst (snd c) = Some d) cs"

text \<open>A level of a multi-index holds \<^verbatim>\<open>None\<close> as the missing value \<^verbatim>\<open>nan\<close>.\<close>

definition index_label :: "label \<Rightarrow> label" where
  "index_label l = (if l = Null then NaN else l)"

definition gather_indexes ::
  "(string \<times> string option \<times> label list) list \<Rightarrow> (string \<times> string option \<times> label list) list" where
  "gather_indexes cs =
     map (\<lambda>c. case fst (snd c) of
                 None \<Rightarrow> c
               | Some d \<Rightarrow>
                   if 1 < length (on_dim d cs)
                   then (fst c, Some d, map index_label (snd (snd c)))
                   else c) cs"

text \<open>
  The constructor \<^verbatim>\<open>DataAssembly(values, coords=..., dims=...)\<close> of the library brainio. It
  rejects dimension names that do not match the array and coordinates whose length is not the
  size of their dimension, and gathers the coordinates of each dimension into its index.
\<close>

definition coord_fits :: "string list \<Rightarrow> nat list \<Rightarrow> string \<times> string option \<times> label list \<Rightarrow> bool" where
  "coord_fits ds shp c =
     (case fst (snd c) of
        None \<Rightarrow> length (snd (snd c)) = 1
      | Some d \<Rightarrow> dim_size ds shp d = Some (length (snd (snd c))))"

definition DataAssembly ::
  "ndarray \<Rightarrow> (string \<times> string \<times> label list) list \<Rightarrow> string list \<Rightarrow> error + data_assembly" where
  "DataAssembly values cs ds =
     (let cs' = map (\<lambda>c. (fst c, Some (fst (snd c)), snd (snd c))) cs in
      if length ds = length (shape values)
         \<and> length (flat values) = prod_list (shape values)
         \<and> list_all (coord_fits ds (shape values)) cs'
      then Inr \<lparr>data = values, coords = gather_indexes cs', dims = ds, name = None,
                stimulus_set = None\<rparr>
      else Inl ValueError)"

section \<open>The mock model: RandomITModel\<close>

record RandomITModel =
  num_neurons :: nat
  time_bin_start :: "int option"
  time_bin_end :: "int option"

definition RandomITModel_init :: RandomITModel where
  "RandomITModel_init = \<lparr>num_neurons = 50, time_bin_start = None, time_bin_end = None\<rparr>"

text \<open>
  \<^verbatim>\<open>look_at\<close> makes a generator seeded with 0 of its own at every call, draws the values,
  labels them and names the assembly. It assigns no attribute of \<^verbatim>\<open>self\<close>.
\<close>

definition look_at ::
  "(nat \<Rightarrow> nat \<Rightarrow> real) \<Rightarrow> stimulus_set \<Rightarrow> (message, RandomITModel, data_assembly) prog" where
  "look_at mt stimuli =
     and_then (tell (Looking_at (length stimuli))) (\<lambda>_.
     and_then (read (\<lambda>self. self)) (\<lambda>self.
       let rnd = new_RandomState 0;
           values = fst (rand mt rnd [length stimuli, num_neurons self, 1])
       in and_then
            (lift (DataAssembly values
               [(''image_id'', ''presentation'', map (\<lambda>s. Str (image_id s)) stimuli),
                (''object_name'', ''presentation'', map (\<lambda>s. Str (object_name s)) stimuli),
                (''neuroid_id'', ''neuroid'', map (\<lambda>i. Num (int i)) [0..<num_neurons self]),
                (''region'', ''neuroid'', replicate (num_neurons self) (Str ''IT'')),
                (''time_bin_start'', ''time_bin'', [label_of (time_bin_start self)]),
                (''time_bin_end'', ''time_bin'', [label_of (time_bin_end self)])]
               [''presentation'', ''neuroid'', ''time_bin'']))
            (\<lambda>recordings. returns (recordings\<lparr>name := Some ''random_it_model''\<rparr>))))"

definition start_task :: "task \<Rightarrow> (message, RandomITModel, unit) prog" where
  "start_task tsk =
     and_then (tell (Starting_task tsk)) (\<lambda>_.
       if tsk \<noteq> Passive then raise (NotImplementedError None) else returns ())"

text \<open>
  \<open>recording_target\<close> is the text \<^verbatim>\<open>str(recording_target)\<close>. After the two checks the
  single bin is read with \<^verbatim>\<open>tolist()\<close>, which a tuple or a list does not have
  (\<^verbatim>\<open>AttributeError\<close>), and then at the indices 0 and 1, which raises \<^verbatim>\<open>IndexError\<close> on an
  array with fewer than two entries. Both entries are read before either attribute is
  assigned.
\<close>

definition start_recording :: "string \<Rightarrow> time_bin list \<Rightarrow> (message, RandomITModel, unit) prog" where
  "start_recording recording_target time_bins =
     and_then (tell (Recording_from recording_target time_bins)) (\<lambda>_.
       if recording_target \<noteq> ''IT''
       then raise (NotImplementedError (Some (only_supports_IT recording_target)))
       else if length time_bins \<noteq> 1
       then raise (NotImplementedError (Some (only_supports_single_time_bin time_bins)))
       else (case hd time_bins of
               Tuple_bin entries \<Rightarrow> raise (AttributeError ''tolist'')
             | Array_bin time_bins' \<Rightarrow>
                 if length time_bins' < 2 then raise IndexError
                 else assign (\<lambda>self. self\<lparr>time_bin_start := Some (time_bins' ! 0),
                                            time_bin_end := Some (time_bins' ! 1)\<rparr>)))"

definition visual_degrees :: "(message, RandomITModel, int) prog" where
  "visual_degrees = and_then (tell Declaring_visual_field) (\<lambda>_. returns 8)"

text \<open>
  The assembly \<^verbatim>\<open>look_at\<close> builds for a stimulus set under a configuration, written out:
  one row per stimulus, one column per neuron, one time bin, filled in row-major order with
  the first numbers of the stream of seed 0, and an unset start or end held as \<^verbatim>\<open>nan\<close>.
\<close>

definition recordings_of ::
  "(nat \<Rightarrow> nat \<Rightarrow> real) \<Rightarrow> stimulus_set \<Rightarrow> RandomITModel \<Rightarrow> data_assembly" where
  "recordings_of mt stimuli self =
     \<lparr>data = \<lparr>shape = [length stimuli, num_neurons self, 1],
              flat = map (mt 0) [0..<length stimuli * num_neurons self]\<rparr>,
      coords =
        [(''image_id'', Some ''presentation'', map (\<lambda>s. Str (image_id s)) stimuli),
         (''object_name'', Some ''presentation'', map (\<lambda>s. Str (object_name s)) stimuli),
         (''neuroid_id'', Some ''neuroid'', map (\<lambda>i. Num (int i)) [0..<num_neurons self]),
         (''region'', Some ''neuroid'', replicate (num_neurons self) (Str ''IT'')),
         (''time_bin_start'', Some ''time_bin'', [index_label (label_of (time_bin_start self))]),
         (''time_bin_end'', Some ''time_bin'', [index_label (label_of (time_bin_end self))])],
      dims = [''presentation'', ''neuroid'', ''time_bin''],
      name = Some ''random_it_model'',
      stimulus_set = None\<rparr>"

section \<open>Scores and the library the benchmark calls\<close>

text \<open>
  A score holds two aggregate values, \<open>center\<close> and \<open>error\<close>, and optionally the scores it
  was derived from: \<open>raw\<close>, the score before normalization, and the ceiling.
\<close>

datatype score =
  Score (center: real) (error: real) (raw: "score option") (ceiling_attr: "score option")

text \<open>
  Modelled from the spec: \<^verbatim>\<open>explained_variance\<close> is imported from
  \<^verbatim>\<open>brainscore.benchmarks._neural_common\<close>, which is not part of the notebook. The spec has
  it "normalize the unceiled score by the ceiling (e.g., via explained-variance division) to
  produce the final score, attaching raw and ceiling as provenance", and leaves the numeric
  convention open, "a pluggable normalization strategy rather than a fixed formula". The
  strategy is the parameter \<open>strategy\<close>: from the unceiled score and the ceiling it gives
  the two aggregate values of the final score, or fails.
\<close>

definition explained_variance ::
  "(score \<Rightarrow> score \<Rightarrow> error + real \<times> real) \<Rightarrow> score \<Rightarrow> score \<Rightarrow> error + score" where
  "explained_variance strategy raw_score ceiling_score =
     (case strategy raw_score ceiling_score of
        Inl e \<Rightarrow> Inl e
      | Inr v \<Rightarrow> Inr (Score (fst v) (snd v) (Some raw_score) (Some ceiling_score)))"

text \<open>
  The other library functions the notebook calls are parameters: the data store behind
  \<^verbatim>\<open>brainscore.get_assembly\<close>, \<^verbatim>\<open>place_on_screen\<close> (stimulus set, target and source visual
  degrees), \<^verbatim>\<open>average_repetition\<close>, the metric \<^verbatim>\<open>CrossRegressedCorrelation\<close> with PLS
  regression and Pearson correlation (number of splits, stratification coordinate, then the
  two assemblies it compares), the ceiling estimator \<^verbatim>\<open>InternalConsistency\<close>, and the
  normalization strategy of \<^verbatim>\<open>explained_variance\<close>. Each returns a new value or raises.
\<close>

record library =
  get_assembly :: "string \<Rightarrow> error + data_assembly"
  place_on_screen :: "stimulus_set \<Rightarrow> int \<Rightarrow> int \<Rightarrow> error + stimulus_set"
  average_repetition :: "data_assembly \<Rightarrow> error + data_assembly"
  CrossRegressedCorrelation :: "nat \<Rightarrow> string \<Rightarrow> data_assembly \<Rightarrow> data_assembly \<Rightarrow> error + score"
  InternalConsistency :: "data_assembly \<Rightarrow> error + score"
  normalization :: "score \<Rightarrow> score \<Rightarrow> error + real \<times> real"

section \<open>Operations on assemblies\<close>

fun index_of :: "'a \<Rightarrow> 'a list \<Rightarrow> nat option" where
  "index_of x [] = None"
| "index_of x (y # ys) = (if x = y then Some 0 else map_option Suc (index_of x ys))"

definition drop_at :: "nat \<Rightarrow> 'a list \<Rightarrow> 'a list" where
  "drop_at k xs = take k xs @ drop (Suc k) xs"

text \<open>\<^verbatim>\<open>assembly[name].values\<close>: the labels of a coordinate.\<close>

definition coord_values :: "data_assembly \<Rightarrow> string \<Rightarrow> error + label list" where
  "coord_values a c =
     (case coord a c of None \<Rightarrow> Inl (KeyError c) | Some v \<Rightarrow> Inr (snd v))"

text \<open>\<^verbatim>\<open>assembly.stimulus_set\<close>: the attribute, when the assembly has one.\<close>

definition get_stimulus_set :: "data_assembly \<Rightarrow> error + stimulus_set" where
  "get_stimulus_set a =
     (case stimulus_set a of None \<Rightarrow> Inl (AttributeError ''stimulus_set'') | Some st \<Rightarrow> Inr st)"

text \<open>
  Keeping the indices of axis \<open>k\<close> where the mask holds. With \<open>outer\<close> the number of index
  combinations before the axis and \<open>inner\<close> the number after it, entry \<open>(o, i, r)\<close> of a
  row-major array sits at \<open>(o * d + i) * inner + r\<close>.
\<close>

definition select_along :: "nat \<Rightarrow> bool list \<Rightarrow> ndarray \<Rightarrow> ndarray" where
  "select_along k msk a =
     (let outer = prod_list (take k (shape a));
          d = shape a ! k;
          inner = prod_list (drop (Suc k) (shape a));
          keep = filter (\<lambda>i. msk ! i) [0..<d]
      in \<lparr>shape = (shape a)[k := length keep],
          flat = concat (map (\<lambda>o'. concat (map (\<lambda>i. take inner (drop ((o' * d + i) * inner) (flat a))) keep))
                             [0..<outer])\<rparr>)"

text \<open>
  Indexing with a boolean mask along a named dimension, \<^verbatim>\<open>assembly[{dim: mask}]\<close> and
  \<^verbatim>\<open>assembly.loc[{dim: mask}]\<close>: the result is a new assembly with the same attributes.
\<close>

definition mask_select :: "string \<Rightarrow> bool list \<Rightarrow> data_assembly \<Rightarrow> error + data_assembly" where
  "mask_select d msk a =
     (case index_of d (dims a) of
        None \<Rightarrow> Inl (KeyError d)
      | Some k \<Rightarrow>
          if sizes a d \<noteq> Some (length msk) then Inl IndexError
          else Inr (a\<lparr>data := select_along k msk (data a),
                      coords := map (\<lambda>c. if fst (snd c) = Some d
                                          then (fst c, Some d, map snd (filter fst (zip msk (snd (snd c)))))
                                          else c) (coords a)\<rparr>))"

text \<open>
  \<^verbatim>\<open>squeeze(dim)\<close> removes a dimension of size one. A longer dimension cannot be squeezed,
  and an empty one has no index 0. Of a multi-index the levels go and one scalar coordinate
  named after the dimension stays, holding the tuple of the level values; a single
  coordinate of the dimension stays as a scalar.
\<close>

definition squeeze_coords :: "string \<Rightarrow> (string \<times> string option \<times> label list) list
    \<Rightarrow> (string \<times> string option \<times> label list) list" where
  "squeeze_coords d cs =
     (if 1 < length (on_dim d cs)
      then filter (\<lambda>c. fst (snd c) \<noteq> Some d) cs
             @ [(d, None, [Levels (concat (map (\<lambda>c. snd (snd c)) (on_dim d cs)))])]
      else map (\<lambda>c. if fst (snd c) = Some d then (fst c, None, snd (snd c)) else c) cs)"

definition squeeze :: "string \<Rightarrow> data_assembly \<Rightarrow> error + data_assembly" where
  "squeeze d a =
     (case index_of d (dims a) of
        None \<Rightarrow> Inl (KeyError d)
      | Some k \<Rightarrow>
          (case sizes a d of
             None \<Rightarrow> Inl (KeyError d)
           | Some n \<Rightarrow>
               if 1 < n then Inl ValueError
               else if n = 0 then Inl IndexError
               else Inr (a\<lparr>data := (data a)\<lparr>shape := drop_at k (shape (data a))\<rparr>,
                           dims := drop_at k (dims a),
                           coords := squeeze_coords d (coords a)\<rparr>)))"

text \<open>
  \<^verbatim>\<open>np.unique\<close>: the distinct values in ascending order. Texts are ordered among
  themselves and so are integers; anything else does not compare.
\<close>

fun str_of :: "label \<Rightarrow> string option" where
  "str_of (Str s) = Some s"
| "str_of _ = None"

fun num_of :: "label \<Rightarrow> int option" where
  "num_of (Num i) = Some i"
| "num_of _ = None"

definition np_unique :: "label list \<Rightarrow> error + label list" where
  "np_unique ls =
     (case those (map str_of ls) of
        Some ss \<Rightarrow> Inr (map Str (sort (remdups ss)))
      | None \<Rightarrow>
          (case those (map num_of ls) of
             Some ns \<Rightarrow> Inr (map Num (sort (remdups ns)))
           | None \<Rightarrow> Inl TypeError))"

section \<open>The custom benchmark: MyBenchmark\<close>

record MyBenchmark =
  assembly :: data_assembly
  similarity_metric :: "data_assembly \<Rightarrow> data_assembly \<Rightarrow> error + score"
  ceiler :: "data_assembly \<Rightarrow> error + score"

text \<open>
  \<^verbatim>\<open>__init__\<close> fetches the assembly, keeps the time bins that start at 100 and the
  presentations of the first 1000 distinct image ids, attaches the stimulus set filtered the
  same way, squeezes the time bin and stores the result with the metric and the ceiling
  estimator. The estimator is constructed here and not called.
\<close>

definition MyBenchmark_init :: "library \<Rightarrow> (event, 's, MyBenchmark) prog" where
  "MyBenchmark_init lib =
     and_then (invoke (Op_get_assembly ''dicarlo.MajajHong2015.temporal.public'')
                 (lift (get_assembly lib ''dicarlo.MajajHong2015.temporal.public''))) (\<lambda>assembly0.
     and_then (lift (coord_values assembly0 ''time_bin_start'')) (\<lambda>starts.
     and_then (lift (mask_select ''time_bin'' (map (\<lambda>start. start = Num 100) starts) assembly0)) (\<lambda>assembly1.
     and_then (lift (coord_values assembly1 ''image_id'')) (\<lambda>ids.
     and_then (lift (np_unique ids)) (\<lambda>uniq.
       let image_ids = take 1000 uniq in
     and_then (lift (mask_select ''presentation'' (map (\<lambda>i. i \<in> set image_ids) ids) assembly1)) (\<lambda>assembly2.
     and_then (lift (get_stimulus_set assembly2)) (\<lambda>stimuli.
       let stimuli' = filter (\<lambda>s. Str (image_id s) \<in> set image_ids) stimuli;
           assembly3 = assembly2\<lparr>stimulus_set := Some stimuli'\<rparr> in
     and_then (lift (squeeze ''time_bin'' assembly3)) (\<lambda>assembly4.
     returns \<lparr>assembly = assembly4,
              similarity_metric = CrossRegressedCorrelation lib 3 ''object_name'',
              ceiler = InternalConsistency lib\<rparr>))))))))"

text \<open>The property \<^verbatim>\<open>identifier\<close>, under which results are stored.\<close>

definition benchmark_identifier :: string where
  "benchmark_identifier = ''my-dummy-benchmark''"

text \<open>
  The candidate is any object with the four operations of the \<^verbatim>\<open>BrainModel\<close> interface,
  each a method on the candidate's own state \<open>'c\<close> that may print.
\<close>

record 'c BrainModel =
  candidate_start_task :: "task \<Rightarrow> (message, 'c, unit) prog"
  candidate_start_recording :: "string \<Rightarrow> time_bin list \<Rightarrow> (message, 'c, unit) prog"
  candidate_visual_degrees :: "(message, 'c, int) prog"
  candidate_look_at :: "stimulus_set \<Rightarrow> (message, 'c, data_assembly) prog"

definition RandomITModel_candidate :: "(nat \<Rightarrow> nat \<Rightarrow> real) \<Rightarrow> RandomITModel BrainModel" where
  "RandomITModel_candidate mt =
     \<lparr>candidate_start_task = start_task,
      candidate_start_recording = start_recording,
      candidate_visual_degrees = visual_degrees,
      candidate_look_at = look_at mt\<rparr>"

text \<open>The objects a scoring run can reach: the benchmark and the candidate.\<close>

record 'c world =
  benchmark :: MyBenchmark
  candidate :: 'c

definition on_candidate :: "(message, 'c, 'a) prog \<Rightarrow> (event, 'c world, 'a) prog" where
  "on_candidate p =
     (\<lambda>w. case p (candidate w) of (l, r, c') \<Rightarrow> (map Printed l, r, w\<lparr>candidate := c'\<rparr>))"

text \<open>The property \<^verbatim>\<open>ceiling\<close>: print, then call the estimator on the stored assembly.\<close>

definition ceiling_property :: "(event, 'c world, score) prog" where
  "ceiling_property =
     and_then (tell (Printed Computing_ceiling)) (\<lambda>_.
     and_then (read benchmark) (\<lambda>self.
       invoke Op_ceiler (lift (ceiler self (assembly self)))))"

text \<open>
  \<^verbatim>\<open>__call__\<close>. The arguments of \<^verbatim>\<open>place_on_screen\<close> are evaluated left to right: the
  stimulus set of the stored assembly first, then \<^verbatim>\<open>candidate.visual_degrees()\<close>.
\<close>

definition call :: "library \<Rightarrow> 'c BrainModel \<Rightarrow> (event, 'c world, score) prog" where
  "call lib cand =
     and_then (invoke (Op_start_task Passive)
                 (on_candidate (candidate_start_task cand Passive))) (\<lambda>_.
     and_then (invoke (Op_start_recording ''IT'' [Array_bin [100, 120]])
                 (on_candidate (candidate_start_recording cand ''IT'' [Array_bin [100, 120]]))) (\<lambda>_.
     and_then (read benchmark) (\<lambda>self.
     and_then (lift (get_stimulus_set (assembly self))) (\<lambda>stimuli.
     and_then (invoke Op_visual_degrees (on_candidate (candidate_visual_degrees cand))) (\<lambda>degrees.
     and_then (invoke Op_place_on_screen (lift (place_on_screen lib stimuli degrees 8))) (\<lambda>stimuli'.
     and_then (invoke Op_look_at (on_candidate (candidate_look_at cand stimuli'))) (\<lambda>predictions.
     and_then (invoke Op_average_repetition (lift (average_repetition lib (assembly self)))) (\<lambda>assembly'.
     and_then (lift (squeeze ''time_bin'' predictions)) (\<lambda>predictions'.
     and_then (tell (Printed Computing_model_match)) (\<lambda>_.
     and_then (invoke Op_similarity_metric
                 (lift (similarity_metric self predictions' assembly'))) (\<lambda>unceiled_score.
     and_then ceiling_property (\<lambda>ceiling_score.
     and_then (invoke Op_explained_variance
                 (lift (explained_variance (normalization lib) unceiled_score ceiling_score))) (\<lambda>ceiled_score.
     returns ceiled_score)))))))))))))"

text \<open>
  Reading the property \<^verbatim>\<open>ceiling\<close> of the same benchmark \<open>n\<close> times in a row, collecting
  the scores read.
\<close>

fun accesses :: "nat \<Rightarrow> (event, 'c world, score list) prog" where
  "accesses 0 = returns []"
| "accesses (Suc n) =
     and_then ceiling_property (\<lambda>first. and_then (accesses n) (\<lambda>rest. returns (first # rest)))"

section \<open>Sample objects\<close>

text \<open>
  A small benchmark over two stimuli and one recording site, with a library whose metric
  and ceiling estimator return fixed scores.
\<close>

definition sample_stimuli :: stimulus_set where
  "sample_stimuli = [\<lparr>image_id = ''a'', object_name = ''car''\<rparr>,
                     \<lparr>image_id = ''b'', object_name = ''dog''\<rparr>]"

text \<open>
  What the sample data store holds: two presentations, one recording site and two time
  bins, with a stimulus set of three stimuli; and the same after the time bins that start
  at 100 are selected.
\<close>

definition sample_recordings :: data_assembly where
  "sample_recordings =
     \<lparr>data = \<lparr>shape = [2, 1, 2], flat = [1 / 8, 1 / 4, 5 / 8, 3 / 4]\<rparr>,
      coords = [(''image_id'', Some ''presentation'', [Str ''a'', Str ''b'']),
                (''object_name'', Some ''presentation'', [Str ''car'', Str ''dog'']),
                (''region'', Some ''neuroid'', [Str ''IT'']),
                (''time_bin_start'', Some ''time_bin'', [Num 70, Num 100]),
                (''time_bin_end'', Some ''time_bin'', [Num 90, Num 120])],
      dims = [''presentation'', ''neuroid'', ''time_bin''],
      name = None,
      stimulus_set = Some (sample_stimuli @ [\<lparr>image_id = ''c'', object_name = ''dog''\<rparr>])\<rparr>"

definition sample_selected :: data_assembly where
  "sample_selected =
     sample_recordings
       \<lparr>data := \<lparr>shape = [2, 1, 1], flat = [1 / 4, 3 / 4]\<rparr>,
        coords := [(''image_id'', Some ''presentation'', [Str ''a'', Str ''b'']),
                   (''object_name'', Some ''presentation'', [Str ''car'', Str ''dog'']),
                   (''region'', Some ''neuroid'', [Str ''IT'']),
                   (''time_bin_start'', Some ''time_bin'', [Num 100]),
                   (''time_bin_end'', Some ''time_bin'', [Num 120])]\<rparr>"

text \<open>The assembly the constructor makes of it.\<close>

definition sample_assembly :: data_assembly where
  "sample_assembly =
     \<lparr>data = \<lparr>shape = [2, 1], flat = [1 / 4, 3 / 4]\<rparr>,
      coords = [(''image_id'', Some ''presentation'', [Str ''a'', Str ''b'']),
                (''object_name'', Some ''presentation'', [Str ''car'', Str ''dog'']),
                (''region'', Some ''neuroid'', [Str ''IT'']),
                (''time_bin'', None, [Levels [Num 100, Num 120]])],
      dims = [''presentation'', ''neuroid''],
      name = None,
      stimulus_set = Some sample_stimuli\<rparr>"

definition sample_raw :: score where
  "sample_raw = Score (1 / 2) (1 / 10) None None"

definition sample_ceiling :: score where
  "sample_ceiling = Score (3 / 4) (1 / 100) None None"

text \<open>A sample normalization strategy: the difference of the two centers.\<close>

definition sample_normalization :: "score \<Rightarrow> score \<Rightarrow> error + real \<times> real" where
  "sample_normalization raw_score ceiling_score =
     Inr (center raw_score - center ceiling_score, error raw_score)"

definition sample_library :: library where
  "sample_library =
     \<lparr>get_assembly =
        (\<lambda>i. if i = ''dicarlo.MajajHong2015.temporal.public'' then Inr sample_recordings
              else Inl (KeyError i)),
      place_on_screen = (\<lambda>stimuli target source. Inr stimuli),
      average_repetition = (\<lambda>a. Inr a),
      CrossRegressedCorrelation = (\<lambda>splits c predictions a. Inr sample_raw),
      InternalConsistency = (\<lambda>a. Inr sample_ceiling),
      normalization = sample_normalization\<rparr>"

definition sample_benchmark :: MyBenchmark where
  "sample_benchmark =
     \<lparr>assembly = sample_assembly,
      similarity_metric = CrossRegressedCorrelation sample_library 3 ''object_name'',
      ceiler = InternalConsistency sample_library\<rparr>"

text \<open>
  A library that tells copies from the stored assembly: its \<^verbatim>\<open>average_repetition\<close> returns
  an assembly with a single averaged presentation, and its ceiling estimator answers with
  the number of values of the assembly it is handed.
\<close>

definition averaged_sample :: data_assembly where
  "averaged_sample =
     sample_assembly
       \<lparr>data := \<lparr>shape = [1, 1], flat = [1 / 2]\<rparr>,
        coords := [(''image_id'', Some ''presentation'', [Str ''a'']),
                   (''object_name'', Some ''presentation'', [Str ''car'']),
                   (''region'', Some ''neuroid'', [Str ''IT'']),
                   (''time_bin'', None, [Levels [Num 100, Num 120]])]\<rparr>"

definition telling_library :: library where
  "telling_library =
     sample_library
       \<lparr>average_repetition := (\<lambda>a. Inr averaged_sample),
        InternalConsistency := (\<lambda>a. Inr (Score (real (length (flat (data a)))) 0 None None))\<rparr>"

definition telling_benchmark :: MyBenchmark where
  "telling_benchmark =
     \<lparr>assembly = sample_assembly,
      similarity_metric = CrossRegressedCorrelation telling_library 3 ''object_name'',
      ceiler = InternalConsistency telling_library\<rparr>"

definition sample_stream :: "nat \<Rightarrow> nat \<Rightarrow> real" where
  "sample_stream sd k = real k / 100"

text \<open>A candidate that is the mock model except that it supports no task at all.\<close>

definition rejecting_candidate :: "RandomITModel BrainModel" where
  "rejecting_candidate =
     (RandomITModel_candidate sample_stream)
       \<lparr>candidate_start_task := (\<lambda>tsk. start_task (Other_task 0))\<rparr>"

section \<open>Properties of computations\<close>

text \<open>
  A computation keeps a part \<open>g\<close> of the state when that part is the same after it as
  before, whether it returns or raises.
\<close>

definition keeps :: "('s \<Rightarrow> 'b) \<Rightarrow> ('l, 's, 'a) prog \<Rightarrow> bool" where
  "keeps g p = (\<forall>s. g (final (p s)) = g s)"

text \<open>A computation logs only events with the property \<open>P\<close>.\<close>

definition logs :: "('l \<Rightarrow> bool) \<Rightarrow> ('l, 's, 'a) prog \<Rightarrow> bool" where
  "logs P p = (\<forall>s. list_all P (events (p s)))"

text \<open>A silent computation logs nothing and leaves the state as it is.\<close>

definition silent :: "('l, 's, 'a) prog \<Rightarrow> bool" where
  "silent p = (\<forall>s. events (p s) = [] \<and> final (p s) = s)"

section \<open>Running computations\<close>

lemma triple_simps [simp]:
  "events (l, r, s) = l" "result (l, r, s) = r" "final (l, r, s) = s"
  by (simp_all add: events_def result_def final_def)

lemma prog_eqI:
  "events a = events b \<Longrightarrow> result a = result b \<Longrightarrow> final a = final b \<Longrightarrow> a = b"
  by (cases a rule: prod_cases3, cases b rule: prod_cases3) simp

lemma basic_simps [simp]:
  "returns x s = ([], Inr x, s)"
  "raise e s = ([], Inl e, s)"
  "tell m s = ([m], Inr (), s)"
  "read f s = ([], Inr (f s), s)"
  "assign upd s = ([], Inr (), upd s)"
  "lift r s = ([], r, s)"
  by (simp_all add: returns_def raise_def tell_def read_def assign_def lift_def)

lemma and_then_simps:
  "events (and_then p f s) =
     events (p s) @ (case result (p s) of Inl e \<Rightarrow> [] | Inr x \<Rightarrow> events (f x (final (p s))))"
  "result (and_then p f s) =
     (case result (p s) of Inl e \<Rightarrow> Inl e | Inr x \<Rightarrow> result (f x (final (p s))))"
  "final (and_then p f s) =
     (case result (p s) of Inl e \<Rightarrow> final (p s) | Inr x \<Rightarrow> final (f x (final (p s))))"
  by (cases "p s" rule: prod_cases3; cases "fst (snd (p s))";
      simp add: and_then_def split: prod.splits)+

lemma and_then_unfold:
  "and_then p f s =
     (case p s of
        (l, Inl e, s') \<Rightarrow> (l, Inl e, s')
      | (l, Inr x, s') \<Rightarrow> (case f x s' of (l', r, s'') \<Rightarrow> (l @ l', r, s'')))"
  by (simp add: and_then_def)

lemma invoke_simps [simp]:
  "events (invoke ope p s) = Invoked ope # events (p s)"
  "result (invoke ope p s) = result (p s)"
  "final (invoke ope p s) = final (p s)"
  by (simp_all add: invoke_def split: prod.splits)

lemma on_candidate_simps [simp]:
  "events (on_candidate p w) = map Printed (events (p (candidate w)))"
  "result (on_candidate p w) = result (p (candidate w))"
  "final (on_candidate p w) = w\<lparr>candidate := final (p (candidate w))\<rparr>"
  by (simp_all add: on_candidate_def split: prod.splits)

subsection \<open>What a computation leaves alone\<close>

lemma keeps_and_then:
  "keeps g p \<Longrightarrow> (\<And>x. keeps g (f x)) \<Longrightarrow> keeps g (and_then p f)"
  by (auto simp: keeps_def and_then_simps split: sum.splits)

lemma keeps_basic:
  "keeps g (returns x)" "keeps g (raise e)" "keeps g (tell m)" "keeps g (read f)"
  "keeps g (lift r)"
  by (simp_all add: keeps_def)

lemma keeps_invoke: "keeps g p \<Longrightarrow> keeps g (invoke ope p)"
  by (simp add: keeps_def)

lemma keeps_on_candidate: "keeps benchmark (on_candidate p)"
  by (simp add: keeps_def)

lemma keeps_ceiling_property: "keeps benchmark ceiling_property"
  unfolding ceiling_property_def
  by (intro keeps_and_then keeps_basic keeps_invoke)

lemma keeps_call: "keeps benchmark (call lib cand)"
  unfolding call_def
  by (intro keeps_and_then keeps_basic keeps_invoke keeps_on_candidate keeps_ceiling_property)

subsection \<open>What a computation logs\<close>

lemma logs_and_then:
  "logs P p \<Longrightarrow> (\<And>x. logs P (f x)) \<Longrightarrow> logs P (and_then p f)"
  by (auto simp: logs_def and_then_simps split: sum.splits)

lemma logs_basic:
  "logs P (returns x)" "logs P (raise e)" "P m \<Longrightarrow> logs P (tell m)" "logs P (read f)"
  "logs P (lift r)" "logs P (assign u)"
  by (simp_all add: logs_def)

lemma logs_invoke: "P (Invoked ope) \<Longrightarrow> logs P p \<Longrightarrow> logs P (invoke ope p)"
  by (simp add: logs_def)

lemma logs_on_candidate: "(\<And>m. P (Printed m)) \<Longrightarrow> logs P (on_candidate p)"
  by (simp add: logs_def list_all_iff)

lemma logs_ceiling_property:
  "P (Printed Computing_ceiling) \<Longrightarrow> P (Invoked Op_ceiler) \<Longrightarrow> logs P ceiling_property"
  unfolding ceiling_property_def
  by (intro logs_and_then logs_basic logs_invoke)

lemma logs_call: "logs (\<lambda>ev. ev \<noteq> Invoked (Op_get_assembly i)) (call lib cand)"
  unfolding call_def
  by (intro logs_and_then logs_basic logs_invoke logs_on_candidate logs_ceiling_property)
     simp_all

lemma silent_and_then:
  "silent p \<Longrightarrow> (\<And>x. silent (f x)) \<Longrightarrow> silent (and_then p f)"
  by (auto simp: silent_def and_then_simps split: sum.splits)

lemma silent_basic:
  "silent (returns x)" "silent (raise e)" "silent (lift r)" "silent (read g)"
  by (simp_all add: silent_def)

lemma invoked_then_silent:
  assumes "\<And>x. silent (f x)"
  shows "events (and_then (invoke ope (lift r)) f s) = [Invoked ope]"
    and "final (and_then (invoke ope (lift r)) f s) = s"
  using assms by (auto simp: silent_def and_then_simps split: sum.splits)

lemma events_init:
  "events (MyBenchmark_init lib s) =
     [Invoked (Op_get_assembly ''dicarlo.MajajHong2015.temporal.public'')]"
  unfolding MyBenchmark_init_def Let_def
  by (rule invoked_then_silent) (intro silent_and_then silent_basic)

lemma final_init: "final (MyBenchmark_init lib s) = s"
  unfolding MyBenchmark_init_def Let_def
  by (rule invoked_then_silent) (intro silent_and_then silent_basic)

section \<open>The methods of the mock model, in closed form\<close>

lemma start_task_eq:
  "start_task tsk self =
     ([Starting_task tsk],
      (if tsk \<noteq> Passive then Inl (NotImplementedError None) else Inr ()), self)"
  by (rule prog_eqI) (simp_all add: start_task_def and_then_simps)

lemma start_recording_eq:
  "start_recording recording_target time_bins self =
     ([Recording_from recording_target time_bins],
      (if recording_target \<noteq> ''IT''
       then Inl (NotImplementedError (Some (only_supports_IT recording_target)))
       else if length time_bins \<noteq> 1
       then Inl (NotImplementedError (Some (only_supports_single_time_bin time_bins)))
       else (case hd time_bins of
               Tuple_bin entries \<Rightarrow> Inl (AttributeError ''tolist'')
             | Array_bin entries \<Rightarrow> if length entries < 2 then Inl IndexError else Inr ())),
      (if recording_target = ''IT'' \<and> length time_bins = 1
       then (case hd time_bins of
               Tuple_bin entries \<Rightarrow> self
             | Array_bin entries \<Rightarrow>
                 if length entries < 2 then self
                 else self\<lparr>time_bin_start := Some (entries ! 0),
                           time_bin_end := Some (entries ! 1)\<rparr>)
       else self))"
  by (rule prog_eqI)
     (simp_all add: start_recording_def and_then_simps split: time_bin.splits)

lemma visual_degrees_eq: "visual_degrees self = ([Declaring_visual_field], Inr 8, self)"
  by (rule prog_eqI) (simp_all add: visual_degrees_def and_then_simps)

lemma index_label_simps [simp]:
  "index_label (Str t) = Str t" "index_label (Num i) = Num i" "index_label Null = NaN"
  "index_label NaN = NaN" "index_label (Levels ls) = Levels ls"
  by (simp_all add: index_label_def)

lemma look_at_eq:
  "look_at mt stimuli self =
     ([Looking_at (length stimuli)], Inr (recordings_of mt stimuli self), self)"
  by (rule prog_eqI)
     (simp_all add: look_at_def and_then_simps recordings_of_def
        DataAssembly_def rand_def new_RandomState_def coord_fits_def dim_size_def Let_def
        gather_indexes_def on_dim_def)

lemma squeeze_recordings:
  "squeeze ''time_bin'' (recordings_of mt stimuli self) =
     Inr ((recordings_of mt stimuli self)
           \<lparr>data := \<lparr>shape = [length stimuli, num_neurons self],
                      flat = map (mt 0) [0..<length stimuli * num_neurons self]\<rparr>,
            dims := [''presentation'', ''neuroid''],
            coords :=
              [(''image_id'', Some ''presentation'', map (\<lambda>s. Str (image_id s)) stimuli),
               (''object_name'', Some ''presentation'', map (\<lambda>s. Str (object_name s)) stimuli),
               (''neuroid_id'', Some ''neuroid'', map (\<lambda>i. Num (int i)) [0..<num_neurons self]),
               (''region'', Some ''neuroid'', replicate (num_neurons self) (Str ''IT'')),
               (''time_bin'', None,
                  [Levels [index_label (label_of (time_bin_start self)),
                           index_label (label_of (time_bin_end self))]])]\<rparr>)"
  by (simp add: squeeze_def squeeze_coords_def on_dim_def recordings_of_def sizes_def
        dim_size_def drop_at_def)

section \<open>The ceiling property, in closed form\<close>

lemma ceiling_property_eq:
  "ceiling_property w =
     ([Printed Computing_ceiling, Invoked Op_ceiler],
      ceiler (benchmark w) (assembly (benchmark w)), w)"
  by (rule prog_eqI) (simp_all add: ceiling_property_def and_then_simps)

lemma accesses_eq:
  assumes "ceiler (benchmark w) (assembly (benchmark w)) = Inr c"
  shows "accesses n w =
           (concat (replicate n [Printed Computing_ceiling, Invoked Op_ceiler]),
            Inr (replicate n c), w)"
proof (induction n)
  case 0
  show ?case by simp
next
  case (Suc n)
  show ?case
    by (rule prog_eqI) (simp_all add: and_then_simps ceiling_property_eq assms Suc)
qed

lemma count_list_concat_replicate:
  "count_list (concat (replicate n xs)) x = n * count_list xs x"
  by (induction n) simp_all

lemma explained_variance_attrs:
  "explained_variance strategy r c = Inr sc \<Longrightarrow> raw sc = Some r \<and> ceiling_attr sc = Some c"
  by (auto simp: explained_variance_def split: sum.splits)

section \<open>The constructor, in closed form\<close>

lemma result_and_then_lift:
  "result (and_then (lift r) f s) = (case r of Inl e \<Rightarrow> Inl e | Inr x \<Rightarrow> result (f x s))"
  by (cases r) (simp_all add: and_then_simps)

lemma result_and_then_invoke_lift:
  "result (and_then (invoke ope (lift r)) f s)
     = (case r of Inl e \<Rightarrow> Inl e | Inr x \<Rightarrow> result (f x s))"
  by (cases r) (simp_all add: and_then_simps)

lemma init_inversion:
  assumes "result (MyBenchmark_init lib s) = Inr b"
  shows "\<exists>a0 starts a1 ids uniq a2 stimuli a4.
           get_assembly lib ''dicarlo.MajajHong2015.temporal.public'' = Inr a0
         \<and> coord_values a0 ''time_bin_start'' = Inr starts
         \<and> mask_select ''time_bin'' (map (\<lambda>start. start = Num 100) starts) a0 = Inr a1
         \<and> coord_values a1 ''image_id'' = Inr ids
         \<and> np_unique ids = Inr uniq
         \<and> mask_select ''presentation'' (map (\<lambda>i. i \<in> set (take 1000 uniq)) ids) a1 = Inr a2
         \<and> get_stimulus_set a2 = Inr stimuli
         \<and> squeeze ''time_bin''
             (a2\<lparr>stimulus_set :=
                   Some (filter (\<lambda>s. Str (image_id s) \<in> set (take 1000 uniq)) stimuli)\<rparr>) = Inr a4
         \<and> b = \<lparr>assembly = a4,
                similarity_metric = CrossRegressedCorrelation lib 3 ''object_name'',
                ceiler = InternalConsistency lib\<rparr>"
  using assms unfolding MyBenchmark_init_def Let_def
  by (simp only: result_and_then_invoke_lift result_and_then_lift basic_simps triple_simps
        split: sum.splits) auto


lemma init_returns:
  assumes "get_assembly lib ''dicarlo.MajajHong2015.temporal.public'' = Inr a0"
      and "coord_values a0 ''time_bin_start'' = Inr starts"
      and "mask_select ''time_bin'' (map (\<lambda>start. start = Num 100) starts) a0 = Inr a1"
      and "coord_values a1 ''image_id'' = Inr ids"
      and "np_unique ids = Inr uniq"
      and "mask_select ''presentation'' (map (\<lambda>i. i \<in> set (take 1000 uniq)) ids) a1 = Inr a2"
      and "get_stimulus_set a2 = Inr stimuli"
      and "squeeze ''time_bin''
             (a2\<lparr>stimulus_set :=
                   Some (filter (\<lambda>s. Str (image_id s) \<in> set (take 1000 uniq)) stimuli)\<rparr>) = Inr a4"
  shows "result (MyBenchmark_init lib s) =
           Inr \<lparr>assembly = a4,
                similarity_metric = CrossRegressedCorrelation lib 3 ''object_name'',
                ceiler = InternalConsistency lib\<rparr>"
  unfolding MyBenchmark_init_def Let_def
  by (simp only: result_and_then_invoke_lift result_and_then_lift assms sum.case
        basic_simps triple_simps)

lemma set_select_along: "set (flat (select_along k msk a)) \<subseteq> set (flat a)"
  by (auto simp: select_along_def Let_def dest!: in_set_takeD in_set_dropD)

lemma in_select_along: "x \<in> set (flat (select_along k msk a)) \<Longrightarrow> x \<in> set (flat a)"
  using set_select_along by blast

lemma mask_select_keeps:
  assumes "mask_select d msk a = Inr a'"
  shows "stimulus_set a' = stimulus_set a" and "dims a' = dims a"
    and "set (flat (data a')) \<subseteq> set (flat (data a))"
  using assms
  by (auto simp: mask_select_def split: option.splits if_splits dest: in_select_along)

lemma index_of_less: "index_of x xs = Some k \<Longrightarrow> k < length xs"
  by (induction xs arbitrary: k) (auto split: if_splits)

lemma squeeze_keeps:
  assumes "squeeze d a = Inr a'"
  shows "stimulus_set a' = stimulus_set a" and "flat (data a') = flat (data a)"
    and "Suc (length (dims a')) = length (dims a)"
  using assms
  by (auto simp: squeeze_def drop_at_def split: option.splits if_splits dest!: index_of_less)

lemma np_unique_distinct: "np_unique ls = Inr uniq \<Longrightarrow> distinct uniq"
  by (auto simp: np_unique_def distinct_map inj_on_def split: option.splits)


lemma init_sample: "result (MyBenchmark_init sample_library ()) = Inr sample_benchmark"
proof -
  have g: "get_assembly sample_library ''dicarlo.MajajHong2015.temporal.public''
             = Inr sample_recordings"
    by (simp add: sample_library_def)
  have s1: "coord_values sample_recordings ''time_bin_start'' = Inr [Num 70, Num 100]"
    by code_simp
  have s2: "mask_select ''time_bin'' (map (\<lambda>start. start = Num 100) [Num 70, Num 100])
              sample_recordings = Inr sample_selected"
    by code_simp
  have s3: "coord_values sample_selected ''image_id'' = Inr [Str ''a'', Str ''b'']"
    by code_simp
  have s4: "np_unique [Str ''a'', Str ''b''] = Inr [Str ''a'', Str ''b'']"
    by code_simp
  have s5: "mask_select ''presentation''
              (map (\<lambda>i. i \<in> set (take 1000 [Str ''a'', Str ''b''])) [Str ''a'', Str ''b''])
              sample_selected = Inr sample_selected"
    by code_simp
  have s6: "get_stimulus_set sample_selected
              = Inr (sample_stimuli @ [\<lparr>image_id = ''c'', object_name = ''dog''\<rparr>])"
    by (simp add: get_stimulus_set_def sample_selected_def sample_recordings_def)
  have s7: "squeeze ''time_bin''
              (sample_selected\<lparr>stimulus_set :=
                 Some (filter (\<lambda>s. Str (image_id s) \<in> set (take 1000 [Str ''a'', Str ''b'']))
                         (sample_stimuli @ [\<lparr>image_id = ''c'', object_name = ''dog''\<rparr>]))\<rparr>)
              = Inr sample_assembly"
    by code_simp
  show ?thesis
    unfolding sample_benchmark_def by (rule init_returns [OF g s1 s2 s3 s4 s5 s6 s7])
qed

section \<open>The claims\<close>

subsection \<open>C1: what the benchmark returns\<close>

text \<open>
  Claim C1. When the candidate accepts the passive task and the recording from IT between
  100 and 120 ms, states its visual degrees and returns predictions with a single time bin,
  and the library calls return, \<^verbatim>\<open>MyBenchmark.__call__\<close> ends as
  \<^verbatim>\<open>explained_variance(unceiled, ceiling)\<close> does, where \<open>unceiled\<close> is the similarity
  metric applied to the squeezed predictions and to \<^verbatim>\<open>average_repetition(self._assembly)\<close>
  and the ceiling is the estimator applied to \<^verbatim>\<open>self._assembly\<close>. A score that comes out
  carries the unceiled score as \<open>raw\<close> and the ceiling score as \<open>ceiling\<close>.
\<close>

theorem call_returns_explained_variance:
  assumes "candidate_start_task cand Passive (candidate w) = (l1, Inr (), c1)"
      and "candidate_start_recording cand ''IT'' [Array_bin [100, 120]] c1 = (l2, Inr (), c2)"
      and "stimulus_set (assembly (benchmark w)) = Some stimuli"
      and "candidate_visual_degrees cand c2 = (l3, Inr degrees, c3)"
      and "place_on_screen lib stimuli degrees 8 = Inr stimuli'"
      and "candidate_look_at cand stimuli' c3 = (l4, Inr predictions, c4)"
      and "average_repetition lib (assembly (benchmark w)) = Inr averaged"
      and "squeeze ''time_bin'' predictions = Inr predictions'"
      and "similarity_metric (benchmark w) predictions' averaged = Inr unceiled_score"
      and "ceiler (benchmark w) (assembly (benchmark w)) = Inr ceiling_score"
  shows "result (call lib cand w)
           = explained_variance (normalization lib) unceiled_score ceiling_score
       \<and> (\<forall>ceiled_score. result (call lib cand w) = Inr ceiled_score \<longrightarrow>
            raw ceiled_score = Some unceiled_score
            \<and> ceiling_attr ceiled_score = Some ceiling_score)"
proof -
  have "result (call lib cand w)
          = explained_variance (normalization lib) unceiled_score ceiling_score"
    using assms
    by (simp add: call_def ceiling_property_def and_then_simps get_stimulus_set_def
          split: sum.splits)
  then show ?thesis
    by (auto dest: explained_variance_attrs)
qed

text \<open>The sample benchmark scores the mock model: 1/2 - 3/4 is -1/4.\<close>

theorem call_returns_explained_variance_witness:
  "result (call sample_library (RandomITModel_candidate sample_stream)
             \<lparr>benchmark = sample_benchmark, candidate = RandomITModel_init\<rparr>)
     = Inr (Score (- (1 / 4)) (1 / 10) (Some sample_raw) (Some sample_ceiling))"
proof -
  let ?cand = "RandomITModel_candidate sample_stream"
  let ?w = "\<lparr>benchmark = sample_benchmark, candidate = RandomITModel_init\<rparr>"
  let ?c = "RandomITModel_init\<lparr>time_bin_start := Some 100, time_bin_end := Some 120\<rparr>"
  let ?stimuli = "sample_stimuli"
  have h1: "candidate_start_task ?cand Passive (candidate ?w)
              = ([Starting_task Passive], Inr (), RandomITModel_init)"
    by (simp add: RandomITModel_candidate_def start_task_eq)
  have h2: "candidate_start_recording ?cand ''IT'' [Array_bin [100, 120]] RandomITModel_init
              = ([Recording_from ''IT'' [Array_bin [100, 120]]], Inr (), ?c)"
    by (simp add: RandomITModel_candidate_def start_recording_eq)
  have h3: "stimulus_set (assembly (benchmark ?w)) = Some ?stimuli"
    by (simp add: sample_benchmark_def sample_assembly_def)
  have h4: "candidate_visual_degrees ?cand ?c = ([Declaring_visual_field], Inr 8, ?c)"
    by (simp add: RandomITModel_candidate_def visual_degrees_eq)
  have h5: "place_on_screen sample_library ?stimuli 8 8 = Inr ?stimuli"
    by (simp add: sample_library_def)
  have h6: "candidate_look_at ?cand ?stimuli ?c
              = ([Looking_at (length ?stimuli)],
                 Inr (recordings_of sample_stream ?stimuli ?c), ?c)"
    by (simp only: RandomITModel_candidate_def BrainModel.simps look_at_eq)
  have h7: "average_repetition sample_library (assembly (benchmark ?w)) = Inr sample_assembly"
    by (simp add: sample_library_def sample_benchmark_def)
  note h8 = squeeze_recordings [of sample_stream ?stimuli ?c]
  have h9: "similarity_metric (benchmark ?w)
              ((recordings_of sample_stream ?stimuli ?c)
                 \<lparr>data := \<lparr>shape = [length ?stimuli, num_neurons ?c],
                            flat = map (sample_stream 0)
                                     [0..<length ?stimuli * num_neurons ?c]\<rparr>,
                  dims := [''presentation'', ''neuroid''],
                  coords :=
                    [(''image_id'', Some ''presentation'',
                        map (\<lambda>s. Str (image_id s)) ?stimuli),
                     (''object_name'', Some ''presentation'',
                        map (\<lambda>s. Str (object_name s)) ?stimuli),
                     (''neuroid_id'', Some ''neuroid'',
                        map (\<lambda>i. Num (int i)) [0..<num_neurons ?c]),
                     (''region'', Some ''neuroid'', replicate (num_neurons ?c) (Str ''IT'')),
                     (''time_bin'', None,
                        [Levels [index_label (label_of (time_bin_start ?c)),
                                 index_label (label_of (time_bin_end ?c))]])]\<rparr>)
              sample_assembly = Inr sample_raw"
    by (simp add: sample_benchmark_def sample_library_def)
  have h10: "ceiler (benchmark ?w) (assembly (benchmark ?w)) = Inr sample_ceiling"
    by (simp add: sample_benchmark_def sample_library_def)
  from call_returns_explained_variance [OF h1 h2 h3 h4 h5 h6 h7 h8 h9 h10]
  show ?thesis
    by (simp add: explained_variance_def sample_normalization_def sample_library_def
          sample_raw_def sample_ceiling_def)
qed

subsection \<open>C2: an unsupported task stops the run before any stimulus is shown\<close>

text \<open>
  Claim C2. For every task other than the passive one, \<^verbatim>\<open>RandomITModel.start_task\<close>
  raises \<^verbatim>\<open>NotImplementedError\<close>. When \<^verbatim>\<open>MyBenchmark.__call__\<close> runs on a candidate whose
  \<^verbatim>\<open>start_task\<close> raises for the task the benchmark asks for, the run ends with that error,
  and the only call made on the candidate is \<^verbatim>\<open>start_task\<close>: \<^verbatim>\<open>look_at\<close> is never called.
\<close>

theorem unsupported_task_raises_before_look_at:
  "(tsk \<noteq> Passive \<longrightarrow> result (start_task tsk self) = Inl (NotImplementedError None))
   \<and> (result (candidate_start_task cand Passive (candidate w)) = Inl e \<longrightarrow>
        result (call lib cand w) = Inl e
        \<and> Invoked Op_look_at \<notin> set (events (call lib cand w))
        \<and> events (call lib cand w) =
            Invoked (Op_start_task Passive)
              # map Printed (events (candidate_start_task cand Passive (candidate w))))"
  by (auto simp: call_def and_then_simps start_task_eq)

theorem unsupported_task_raises_before_look_at_witness:
  "Other_task 0 \<noteq> Passive
   \<and> result (start_task (Other_task 0) RandomITModel_init) = Inl (NotImplementedError None)
   \<and> result (candidate_start_task rejecting_candidate Passive RandomITModel_init)
       = Inl (NotImplementedError None)
   \<and> result (call sample_library rejecting_candidate
               \<lparr>benchmark = sample_benchmark, candidate = RandomITModel_init\<rparr>)
       = Inl (NotImplementedError None)
   \<and> events (call sample_library rejecting_candidate
               \<lparr>benchmark = sample_benchmark, candidate = RandomITModel_init\<rparr>)
       = [Invoked (Op_start_task Passive), Printed (Starting_task (Other_task 0))]"
proof -
  have h: "result (candidate_start_task rejecting_candidate Passive
             (candidate \<lparr>benchmark = sample_benchmark, candidate = RandomITModel_init\<rparr>))
           = Inl (NotImplementedError None)"
    by (simp add: rejecting_candidate_def start_task_eq)
  from unsupported_task_raises_before_look_at
         [of "Other_task 0" RandomITModel_init rejecting_candidate
             "\<lparr>benchmark = sample_benchmark, candidate = RandomITModel_init\<rparr>"
             "NotImplementedError None" sample_library] h
  show ?thesis
    by (simp add: rejecting_candidate_def start_task_eq)
qed

subsection \<open>C3: the ceiling is computed at every access\<close>

text \<open>
  Claim C3, as the code has it. The property \<^verbatim>\<open>ceiling\<close> keeps no cache. Constructing the
  benchmark does not call the ceiling estimator, and every read of the property calls it
  once on the stored assembly: while the estimator returns, \<open>n\<close> reads in a row call it
  \<open>n\<close> times, each returns the same score, and the benchmark and the candidate are as
  before.
\<close>

theorem ceiling_computed_at_every_access:
  assumes "ceiler (benchmark w) (assembly (benchmark w)) = Inr c"
  shows "count_list (events (accesses n w)) (Invoked Op_ceiler) = n
       \<and> result (accesses n w) = Inr (replicate n c)
       \<and> final (accesses n w) = w
       \<and> Invoked Op_ceiler \<notin> set (events (MyBenchmark_init lib s))"
  by (simp add: accesses_eq [OF assms] count_list_concat_replicate events_init)

theorem ceiling_computed_at_every_access_witness:
  "count_list (events (accesses 3 \<lparr>benchmark = sample_benchmark, candidate = ()\<rparr>))
     (Invoked Op_ceiler) = 3
   \<and> result (accesses 3 \<lparr>benchmark = sample_benchmark, candidate = ()\<rparr>)
       = Inr [sample_ceiling, sample_ceiling, sample_ceiling]"
proof -
  have h: "ceiler (benchmark \<lparr>benchmark = sample_benchmark, candidate = ()\<rparr>)
             (assembly (benchmark \<lparr>benchmark = sample_benchmark, candidate = ()\<rparr>))
           = Inr sample_ceiling"
    by (simp add: sample_benchmark_def sample_library_def)
  have r: "replicate 3 sample_ceiling = [sample_ceiling, sample_ceiling, sample_ceiling]"
    by (simp add: numeral_3_eq_3)
  from ceiling_computed_at_every_access
         [OF h, where n = 3 and lib = sample_library and s = "()"]
  show ?thesis
    by (simp add: r)
qed

text \<open>
  Claim C3 as stated, that the estimator is called at most once over repeated reads, fails:
  two reads of the property of the sample benchmark call the estimator twice.
\<close>

theorem ceiling_memoized_counterexample:
  "\<not> count_list (events (accesses 2 \<lparr>benchmark = sample_benchmark, candidate = ()\<rparr>))
        (Invoked Op_ceiler) \<le> 1"
  by (simp add: numeral_2_eq_2 and_then_simps ceiling_property_eq sample_benchmark_def
        sample_library_def)

subsection \<open>C4: when start_recording raises\<close>

text \<open>
  Claim C4, as the code has it. For every recording target and every list of time bins,
  \<^verbatim>\<open>RandomITModel.start_recording\<close> raises if and only if the target is not "IT", or the
  list does not hold exactly one bin, or that bin cannot be read: a tuple or a list has no
  \<^verbatim>\<open>tolist\<close> (\<^verbatim>\<open>AttributeError\<close>) and an array with fewer than two entries has no index 1
  (\<^verbatim>\<open>IndexError\<close>). When it raises, the configuration is untouched; when it returns, the
  recorded time window is the first two entries of the single bin.
\<close>

theorem start_recording_raises_iff_unreadable:
  "(isl (result (start_recording recording_target time_bins self))
      \<longleftrightarrow> recording_target \<noteq> ''IT'' \<or> length time_bins \<noteq> 1
          \<or> \<not> list_all readable time_bins)
   \<and> (isl (result (start_recording recording_target time_bins self))
        \<longrightarrow> final (start_recording recording_target time_bins self) = self)
   \<and> (\<not> isl (result (start_recording recording_target time_bins self))
        \<longrightarrow> (\<exists>start stop rest. time_bins = [Array_bin (start # stop # rest)]
              \<and> final (start_recording recording_target time_bins self)
                  = self\<lparr>time_bin_start := Some start, time_bin_end := Some stop\<rparr>))
   \<and> result (start_recording ''IT'' [Tuple_bin entries] self) = Inl (AttributeError ''tolist'')
   \<and> (length entries < 2
        \<longrightarrow> result (start_recording ''IT'' [Array_bin entries] self) = Inl IndexError)"
proof (cases "recording_target = ''IT'' \<and> length time_bins = 1")
  case False
  then show ?thesis
    by (auto simp: start_recording_eq)
next
  case True
  then obtain bin where bins: "time_bins = [bin]"
    by (cases time_bins) auto
  show ?thesis
  proof (cases bin)
    case (Tuple_bin xs)
    with True bins show ?thesis
      by (simp add: start_recording_eq)
  next
    case (Array_bin xs)
    show ?thesis
    proof (cases "length xs < 2")
      case True
      with \<open>recording_target = ''IT'' \<and> length time_bins = 1\<close> bins Array_bin show ?thesis
        by (simp add: start_recording_eq)
    next
      case False
      then obtain start stop rest where xs: "xs = start # stop # rest"
        by (cases xs; cases "tl xs") auto
      with \<open>recording_target = ''IT'' \<and> length time_bins = 1\<close> bins Array_bin show ?thesis
        by (simp add: start_recording_eq)
    qed
  qed
qed

theorem start_recording_raises_iff_unreadable_witness:
  "\<not> isl (result (start_recording ''IT'' [Array_bin [100, 120]] RandomITModel_init))
   \<and> final (start_recording ''IT'' [Array_bin [100, 120]] RandomITModel_init)
       = \<lparr>num_neurons = 50, time_bin_start = Some 100, time_bin_end = Some 120\<rparr>
   \<and> isl (result (start_recording ''V4'' [Array_bin [100, 120]] RandomITModel_init))
   \<and> isl (result (start_recording ''IT''
             [Array_bin [70, 90], Array_bin [100, 120]] RandomITModel_init))
   \<and> result (start_recording ''IT'' [Array_bin [100]] RandomITModel_init) = Inl IndexError"
  using start_recording_raises_iff_unreadable
          [of "''IT''" "[Array_bin [100, 120]]" RandomITModel_init "[100]"]
        start_recording_raises_iff_unreadable
          [of "''V4''" "[Array_bin [100, 120]]" RandomITModel_init "[100]"]
        start_recording_raises_iff_unreadable
          [of "''IT''" "[Array_bin [70, 90], Array_bin [100, 120]]" RandomITModel_init "[100]"]
  by (simp add: RandomITModel_init_def)

text \<open>
  Claim C4 as stated, that a supported target and a single bin always succeed, fails: an
  array bin with one entry and a tuple bin both raise although the target is "IT" and the
  list holds exactly one bin.
\<close>

theorem start_recording_single_bin_counterexample:
  "length [Array_bin [7]] = 1
   \<and> result (start_recording ''IT'' [Array_bin [7]] RandomITModel_init) = Inl IndexError
   \<and> length [Tuple_bin [100, 120]] = 1
   \<and> result (start_recording ''IT'' [Tuple_bin [100, 120]] RandomITModel_init)
       = Inl (AttributeError ''tolist'')"
  by (simp add: start_recording_eq)

subsection \<open>C8: look_at is pure\<close>

text \<open>
  Claim C8. For every configuration of the mock model and every stimulus set, \<^verbatim>\<open>look_at\<close>
  prints one line, returns an assembly and leaves the model as it was, so that two calls in
  a row on the same stimuli return equal assemblies. The assembly is indexed by presentation
  and neuroid and its time bin is labelled with the configured start and end (an unset one
  is held as \<^verbatim>\<open>nan\<close>): the ones \<^verbatim>\<open>start_recording\<close> has set, when it ran before.
\<close>

theorem look_at_pure:
  "\<exists>recordings.
      look_at mt stimuli self = ([Looking_at (length stimuli)], Inr recordings, self)
    \<and> result (and_then (look_at mt stimuli) (\<lambda>first.
               and_then (look_at mt stimuli) (\<lambda>second. returns (first, second))) self)
        = Inr (recordings, recordings)
    \<and> final (and_then (look_at mt stimuli) (\<lambda>first.
               and_then (look_at mt stimuli) (\<lambda>second. returns (first, second))) self) = self
    \<and> dims recordings = [''presentation'', ''neuroid'', ''time_bin'']
    \<and> coord recordings ''image_id''
        = Some (Some ''presentation'', map (\<lambda>s. Str (image_id s)) stimuli)
    \<and> coord recordings ''neuroid_id''
        = Some (Some ''neuroid'', map (\<lambda>i. Num (int i)) [0..<num_neurons self])
    \<and> coord recordings ''time_bin_start''
        = Some (Some ''time_bin'', [index_label (label_of (time_bin_start self))])
    \<and> coord recordings ''time_bin_end''
        = Some (Some ''time_bin'', [index_label (label_of (time_bin_end self))])
    \<and> (\<exists>configured.
          result (and_then (start_recording ''IT'' [Array_bin [start, stop]])
                    (\<lambda>_. look_at mt stimuli) self) = Inr configured
          \<and> coord configured ''time_bin_start'' = Some (Some ''time_bin'', [Num start])
          \<and> coord configured ''time_bin_end'' = Some (Some ''time_bin'', [Num stop]))"
  by (simp add: look_at_eq and_then_simps start_recording_eq recordings_of_def coord_def
        label_of_def index_label_def)

theorem look_at_pure_witness:
  "events (look_at sample_stream sample_stimuli RandomITModel_init) = [Looking_at 2]
   \<and> final (look_at sample_stream sample_stimuli RandomITModel_init) = RandomITModel_init
   \<and> result (and_then (look_at sample_stream sample_stimuli) (\<lambda>first.
              and_then (look_at sample_stream sample_stimuli) (\<lambda>second.
                returns (first = second))) RandomITModel_init) = Inr True"
proof -
  from look_at_pure [of sample_stream sample_stimuli RandomITModel_init 100 120]
  obtain recordings where
    "look_at sample_stream sample_stimuli RandomITModel_init
       = ([Looking_at (length sample_stimuli)], Inr recordings, RandomITModel_init)"
    by blast
  then show ?thesis
    by (simp add: and_then_simps sample_stimuli_def)
qed

subsection \<open>C9: the benchmark is fetched once and then only read\<close>




subsection \<open>C10: the assembly look_at returns\<close>

text \<open>
  Claim C10, as the code has it. For every stimulus set and every configured start and
  end, \<^verbatim>\<open>look_at\<close> on the mock model returns, without raising, an assembly of shape
  (number of stimuli, 50, 1) over presentation, neuroid and time bin, with every neuroid in
  region "IT" and the time bin labelled with the configured start and end. On a fresh
  model, where \<^verbatim>\<open>start_recording\<close> was never called, it returns as well, and both labels
  of the time bin are \<^verbatim>\<open>nan\<close>: the index of the assembly holds the unset \<^verbatim>\<open>None\<close> as a
  missing value.
\<close>

theorem look_at_returns_labelled_assembly:
  "\<exists>recordings.
      look_at mt stimuli \<lparr>num_neurons = 50, time_bin_start = start, time_bin_end = stop\<rparr>
        = ([Looking_at (length stimuli)], Inr recordings,
           \<lparr>num_neurons = 50, time_bin_start = start, time_bin_end = stop\<rparr>)
    \<and> shape (data recordings) = [length stimuli, 50, 1]
    \<and> length (flat (data recordings)) = length stimuli * 50 * 1
    \<and> dims recordings = [''presentation'', ''neuroid'', ''time_bin'']
    \<and> coord recordings ''region'' = Some (Some ''neuroid'', replicate 50 (Str ''IT''))
    \<and> coord recordings ''time_bin_start''
        = Some (Some ''time_bin'', [case start of None \<Rightarrow> NaN | Some i \<Rightarrow> Num i])
    \<and> coord recordings ''time_bin_end''
        = Some (Some ''time_bin'', [case stop of None \<Rightarrow> NaN | Some i \<Rightarrow> Num i])
    \<and> (\<exists>fresh. result (look_at mt stimuli RandomITModel_init) = Inr fresh
          \<and> shape (data fresh) = [length stimuli, 50, 1]
          \<and> coord fresh ''time_bin_start'' = Some (Some ''time_bin'', [NaN])
          \<and> coord fresh ''time_bin_end'' = Some (Some ''time_bin'', [NaN]))"
  by (simp add: look_at_eq recordings_of_def coord_def RandomITModel_init_def label_of_def
        index_label_def split: option.splits)

theorem look_at_returns_labelled_assembly_witness:
  "\<exists>configured.
      result (look_at sample_stream sample_stimuli
                \<lparr>num_neurons = 50, time_bin_start = Some 100, time_bin_end = Some 120\<rparr>)
        = Inr configured
      \<and> shape (data configured) = [2, 50, 1]
      \<and> coord configured ''time_bin_start'' = Some (Some ''time_bin'', [Num 100])
      \<and> coord configured ''time_bin_end'' = Some (Some ''time_bin'', [Num 120])"
  using look_at_returns_labelled_assembly [of sample_stream sample_stimuli "Some 100" "Some 120"]
  by (auto simp: sample_stimuli_def)

text \<open>
  Claim C10 as stated, that a fresh model labels the time bin with \<^verbatim>\<open>(None, None)\<close>,
  fails: the assembly returned for the sample stimuli holds \<^verbatim>\<open>nan\<close> in both places.
\<close>

theorem look_at_fresh_labels_counterexample:
  "look_at sample_stream sample_stimuli RandomITModel_init
     = ([Looking_at 2], Inr (recordings_of sample_stream sample_stimuli RandomITModel_init),
        RandomITModel_init)
   \<and> coord (recordings_of sample_stream sample_stimuli RandomITModel_init) ''time_bin_start''
       = Some (Some ''time_bin'', [NaN])
   \<and> coord (recordings_of sample_stream sample_stimuli RandomITModel_init) ''time_bin_end''
       = Some (Some ''time_bin'', [NaN])
   \<and> NaN \<noteq> Null"
  by (simp add: look_at_eq recordings_of_def coord_def RandomITModel_init_def label_of_def
        index_label_def sample_stimuli_def)

end
